theory Spec2Isabelle
  imports Complex_Main
begin

section \<open>Python strings and integers\<close>

text \<open>
  A Python \<^verbatim>\<open>str\<close> is modelled as a \<^typ>\<open>string\<close>, each \<^typ>\<open>char\<close> read as one code point
  in the range 0..255. Python's unbounded \<^verbatim>\<open>int\<close> is \<^typ>\<open>int\<close>. Every exception the code
  can raise is a value of \<open>error\<close>, and a function that can raise returns
  \<open>error + 'a\<close>. CPython's configurable limit on the number of digits of an integer
  conversion is a resource limit and is not part of the model.
\<close>

datatype error =
    ElementLookupError          \<comment> \<open>raised by an \<^verbatim>\<open>ElementInfo\<close> lookup of an unknown key\<close>
  | UnboundLocalError           \<comment> \<open>a local variable read before any assignment\<close>
  | IndexError                  \<comment> \<open>list index out of range\<close>
  | IntValueError string        \<comment> \<open>\<^verbatim>\<open>int(s)\<close>: invalid literal, carrying \<open>s\<close>\<close>
  | FloatValueError string      \<comment> \<open>\<^verbatim>\<open>float(s)\<close>: could not convert, carrying \<open>s\<close>\<close>
  | ZeroDivisionError
  | OSError                     \<comment> \<open>\<^verbatim>\<open>open\<close> failed\<close>
  | ValueError string           \<comment> \<open>\<^verbatim>\<open>raise ValueError(msg)\<close> of the code itself\<close>

text \<open>\<^verbatim>\<open>str.isnumeric\<close> on one character: the decimal digits, the superscripts
  one to three and the vulgar fractions of Latin-1.\<close>

definition isnumeric :: "char \<Rightarrow> bool" where
  "isnumeric c \<longleftrightarrow> c \<in> set (''0123456789'' @ [CHR 0xB2, CHR 0xB3, CHR 0xB9, CHR 0xBC, CHR 0xBD, CHR 0xBE])"

text \<open>The characters \<^verbatim>\<open>int\<close> accepts as digits.\<close>

definition isdecimal :: "char \<Rightarrow> bool" where
  "isdecimal c \<longleftrightarrow> c \<in> set ''0123456789''"

definition digit_value :: "char \<Rightarrow> nat" where
  "digit_value c = of_char c - 48"

text \<open>\<^verbatim>\<open>str.isspace\<close> on one character, the separator set of \<^verbatim>\<open>str.split()\<close>.\<close>

definition isspace :: "char \<Rightarrow> bool" where
  "isspace c \<longleftrightarrow> c \<in> set [CHR 0x09, CHR 0x0A, CHR 0x0B, CHR 0x0C, CHR 0x0D,
      CHR 0x1C, CHR 0x1D, CHR 0x1E, CHR 0x1F, CHR 0x20, CHR 0x85, CHR 0xA0]"

text \<open>The characters \<^verbatim>\<open>int\<close> strips from both ends of its argument.\<close>

definition int_space :: "char \<Rightarrow> bool" where
  "int_space c \<longleftrightarrow> c \<in> set [CHR 0x09, CHR 0x0A, CHR 0x0B, CHR 0x0C, CHR 0x0D,
      CHR 0x20, CHR 0x85, CHR 0xA0]"

text \<open>\<^verbatim>\<open>str(n)\<close> and \<^verbatim>\<open>"{}".format(n)\<close> of an integer.\<close>

fun str_nat :: "nat \<Rightarrow> string" where
  "str_nat n = (if n < 10 then [''0123456789'' ! n]
                else str_nat (n div 10) @ [''0123456789'' ! (n mod 10)])"

declare str_nat.simps [simp del]

definition py_str :: "int \<Rightarrow> string" where
  "py_str i = (if i < 0 then CHR ''-'' # str_nat (nat (- i)) else str_nat (nat i))"

text \<open>\<^verbatim>\<open>s.zfill(w)\<close>: zeros go after a leading sign.\<close>

definition zfill :: "nat \<Rightarrow> string \<Rightarrow> string" where
  "zfill w s =
     (if w \<le> length s then s
      else (case s of
              c # cs \<Rightarrow> if c = CHR ''+'' \<or> c = CHR ''-''
                        then c # replicate (w - length s) CHR ''0'' @ cs
                        else replicate (w - length s) CHR ''0'' @ s
            | [] \<Rightarrow> replicate w CHR ''0''))"

text \<open>\<^verbatim>\<open>int(s)\<close> in base 10: surrounding white space is stripped, one sign is allowed,
  and single underscores may separate digits.\<close>

fun int_digits :: "nat \<Rightarrow> string \<Rightarrow> nat option" where
  "int_digits acc [] = Some acc"
| "int_digits acc (c # cs) =
     (if isdecimal c then int_digits (10 * acc + digit_value c) cs
      else if c = CHR ''_'' then
        (case cs of
           [] \<Rightarrow> None
         | d # ds \<Rightarrow> if isdecimal d then int_digits (10 * acc + digit_value d) ds else None)
      else None)"

definition strip_int :: "string \<Rightarrow> string" where
  "strip_int s = rev (dropWhile int_space (rev (dropWhile int_space s)))"

definition py_int :: "string \<Rightarrow> error + int" where
  "py_int s =
     (let t = strip_int s;
          neg = (case t of c # _ \<Rightarrow> c = CHR ''-'' | [] \<Rightarrow> False);
          body = (case t of c # r \<Rightarrow> if c = CHR ''-'' \<or> c = CHR ''+'' then r else t | [] \<Rightarrow> t)
      in (case body of
            [] \<Rightarrow> Inl (IntValueError s)
          | c # cs \<Rightarrow>
              if isdecimal c then
                (case int_digits (digit_value c) cs of
                   None \<Rightarrow> Inl (IntValueError s)
                 | Some n \<Rightarrow> Inr (if neg then - int n else int n))
              else Inl (IntValueError s)))"

text \<open>\<^verbatim>\<open>s.split(sep)\<close> for a separator of one character.\<close>

function split_on :: "char \<Rightarrow> string \<Rightarrow> string list" where
  "split_on sep s = takeWhile (\<lambda>c. c \<noteq> sep) s #
     (case dropWhile (\<lambda>c. c \<noteq> sep) s of [] \<Rightarrow> [] | _ # rest \<Rightarrow> split_on sep rest)"
  by pat_completeness auto
termination
  apply (relation "measure (\<lambda>(sep, s). length s)")
   apply simp
  subgoal for sep s x rest
    using length_dropWhile_le [of "\<lambda>c. c \<noteq> sep" s] by simp
  done

declare split_on.simps [simp del]

text \<open>\<^verbatim>\<open>s.split()\<close>: the maximal runs of characters that are not white space.\<close>

function split_ws :: "string \<Rightarrow> string list" where
  "split_ws s =
     (case dropWhile isspace s of
        [] \<Rightarrow> []
      | c # cs \<Rightarrow> takeWhile (\<lambda>x. \<not> isspace x) (c # cs) # split_ws (dropWhile (\<lambda>x. \<not> isspace x) cs))"
  by pat_completeness auto
termination
  apply (relation "measure length")
   apply simp
  subgoal for s c cs
    using length_dropWhile_le [of isspace s]
          length_dropWhile_le [of "\<lambda>x. \<not> isspace x" cs] by simp
  done

declare split_ws.simps [simp del]

text \<open>\<^verbatim>\<open>xs[i]\<close> for a literal index \<open>i \<ge> 0\<close>; \<open>None\<close> is the \<^verbatim>\<open>IndexError\<close>.\<close>

definition py_index :: "'a list \<Rightarrow> nat \<Rightarrow> 'a option" where
  "py_index xs i = (if i < length xs then Some (xs ! i) else None)"

section \<open>The element table\<close>

text \<open>
  The module \<^verbatim>\<open>element_info\<close> is a collaborator of \<^verbatim>\<open>isomer_data.py\<close>; its two
  lookups are parameters of the model. \<open>None\<close> is the lookup's failure.
\<close>

record ElementInfo =
  get_element_symbol_from_atomic_number :: "int \<Rightarrow> string option"
  get_atomic_number_from_element_symbol :: "string \<Rightarrow> int option"

section \<open>The identifier codec\<close>

definition filename_from_nuclear_data :: "ElementInfo \<Rightarrow> int \<Rightarrow> int \<Rightarrow> int \<Rightarrow> error + string" where
  "filename_from_nuclear_data ei atomic_number atomic_mass energy_state =
     (case get_element_symbol_from_atomic_number ei atomic_number of
        None \<Rightarrow> Inl ElementLookupError
      | Some symbol \<Rightarrow>
          (let filename = ''dec-'' @ zfill 3 (py_str atomic_number) @ ''_'' @ symbol @ ''_''
                            @ zfill 3 (py_str atomic_mass);
               filename = (if energy_state \<noteq> 0 then filename @ ''m'' @ py_str energy_state
                           else filename)
           in Inr (filename @ ''.endf'')))"

definition isomer_name_from_nuclear_data :: "ElementInfo \<Rightarrow> int \<Rightarrow> int \<Rightarrow> int \<Rightarrow> error + string" where
  "isomer_name_from_nuclear_data ei atomic_number atomic_mass energy_state =
     (case get_element_symbol_from_atomic_number ei atomic_number of
        None \<Rightarrow> Inl ElementLookupError
      | Some symbol \<Rightarrow>
          (let isomer_name = symbol @ py_str atomic_mass;
               isomer_name = (if energy_state \<noteq> 0 then isomer_name @ ''m'' @ py_str energy_state
                              else isomer_name)
           in Inr isomer_name))"

text \<open>The loop of \<^verbatim>\<open>nuclear_data_from_name\<close>: the index of the first numeric character;
  \<open>None\<close> when the loop ends without assigning \<^verbatim>\<open>n_char_symbol\<close>.\<close>

fun first_numeric :: "nat \<Rightarrow> string \<Rightarrow> nat option" where
  "first_numeric i [] = None"
| "first_numeric i (char # rest) = (if isnumeric char then Some i else first_numeric (Suc i) rest)"

text \<open>The \<^verbatim>\<open>try\<close> block shared by both decoders: only the \<^verbatim>\<open>IndexError\<close> of the missing
  second segment is caught.\<close>

definition energy_state_of :: "string list \<Rightarrow> error + int" where
  "energy_state_of mass_and_group =
     (case py_index mass_and_group 1 of None \<Rightarrow> Inr 0 | Some s \<Rightarrow> py_int s)"

definition nuclear_data_from_name :: "ElementInfo \<Rightarrow> string \<Rightarrow> error + int \<times> int \<times> int" where
  "nuclear_data_from_name ei isomer_name =
     (case first_numeric 0 isomer_name of
        None \<Rightarrow> Inl UnboundLocalError
      | Some n_char_symbol \<Rightarrow>
          (let symbol = take n_char_symbol isomer_name in
           (case get_atomic_number_from_element_symbol ei symbol of
              None \<Rightarrow> Inl ElementLookupError
            | Some atomic_number \<Rightarrow>
                (let mass_and_group = split_on CHR ''m'' (drop n_char_symbol isomer_name) in
                 (case py_index mass_and_group 0 of
                    None \<Rightarrow> Inl IndexError
                  | Some mass \<Rightarrow>
                      (case py_int mass of
                         Inl e \<Rightarrow> Inl e
                       | Inr atomic_mass \<Rightarrow>
                           (case energy_state_of mass_and_group of
                              Inl e \<Rightarrow> Inl e
                            | Inr energy_state \<Rightarrow>
                                Inr (atomic_number, atomic_mass, energy_state))))))))"

definition filename_from_isomer_name :: "ElementInfo \<Rightarrow> string \<Rightarrow> error + string" where
  "filename_from_isomer_name ei isomer_name =
     (case nuclear_data_from_name ei isomer_name of
        Inl e \<Rightarrow> Inl e
      | Inr (atomic_number, atomic_mass, energy_state) \<Rightarrow>
          filename_from_nuclear_data ei atomic_number atomic_mass energy_state)"

definition nuclear_data_from_filename :: "string \<Rightarrow> error + int \<times> int \<times> int" where
  "nuclear_data_from_filename filename =
     (case py_int (take 3 (drop 4 filename)) of
        Inl e \<Rightarrow> Inl e
      | Inr atomic_number \<Rightarrow>
          (case py_index (split_on CHR ''_'' filename) 2 of
             None \<Rightarrow> Inl IndexError
           | Some seg \<Rightarrow>
               (case py_index (split_on CHR ''.'' seg) 0 of
                  None \<Rightarrow> Inl IndexError
                | Some mass_and_group \<Rightarrow>
                    (case py_index (split_on CHR ''m'' mass_and_group) 0 of
                       None \<Rightarrow> Inl IndexError
                     | Some mass \<Rightarrow>
                         (case py_int mass of
                            Inl e \<Rightarrow> Inl e
                          | Inr atomic_mass \<Rightarrow>
                              (case energy_state_of (split_on CHR ''m'' mass_and_group) of
                                 Inl e \<Rightarrow> Inl e
                               | Inr energy_state \<Rightarrow>
                                   Inr (atomic_number, atomic_mass, energy_state)))))))"

definition isomer_name_from_filename :: "ElementInfo \<Rightarrow> string \<Rightarrow> error + string" where
  "isomer_name_from_filename ei filename =
     (case nuclear_data_from_filename filename of
        Inl e \<Rightarrow> Inl e
      | Inr (atomic_number, atomic_mass, energy_state) \<Rightarrow>
          isomer_name_from_nuclear_data ei atomic_number atomic_mass energy_state)"

section \<open>The isomer record loader\<close>

text \<open>
  Floating point is not modelled: the type \<open>'f\<close> of floats and the operations the
  constructor applies to them are parameters. \<open>float_of_str\<close> is \<^verbatim>\<open>float(s)\<close>
  (\<open>None\<close> when it raises \<^verbatim>\<open>ValueError\<close>), \<open>log2_div x\<close> is \<^verbatim>\<open>math.log(2) / x\<close>
  (\<open>None\<close> when it raises \<^verbatim>\<open>ZeroDivisionError\<close>), and \<open>float_mul\<close>, \<open>float_div\<close>
  multiply and divide by a non-zero constant whose value is an integer.
\<close>

record 'f float_ops =
  float_of_str :: "string \<Rightarrow> 'f option"
  float_zero :: 'f
  log2_div :: "'f \<Rightarrow> 'f option"
  float_mul :: "'f \<Rightarrow> int \<Rightarrow> 'f"
  float_div :: "'f \<Rightarrow> int \<Rightarrow> 'f"

text \<open>\<^verbatim>\<open>os.path.join(a, b)\<close> of two strings, with the separator \<^verbatim>\<open>/\<close> of POSIX.\<close>

definition path_join :: "string \<Rightarrow> string \<Rightarrow> string" where
  "path_join a b =
     (if take 1 b = ''/'' then b
      else if a = [] \<or> last a = CHR ''/'' then a @ b
      else a @ ''/'' @ b)"

text \<open>Lines 138 to 141: a prefix of \<^verbatim>\<open>None\<close> makes \<^verbatim>\<open>os.path.join\<close> raise
  \<^verbatim>\<open>TypeError\<close>, and the file name is used alone.\<close>

definition resolve_filepath :: "string option \<Rightarrow> string \<Rightarrow> string" where
  "resolve_filepath data_directory_prefix filename =
     (case data_directory_prefix of None \<Rightarrow> filename | Some p \<Rightarrow> path_join p filename)"

text \<open>\<^verbatim>\<open>f.readlines()\<close> on the text that text mode delivers, where every line end
  is already the newline character: each line keeps its newline, and a last line
  without one is returned as it is.\<close>

function readlines :: "string \<Rightarrow> string list" where
  "readlines s =
     (if s = [] then []
      else (case dropWhile (\<lambda>c. c \<noteq> CHR 0x0A) s of
              [] \<Rightarrow> [s]
            | nl # rest \<Rightarrow> (takeWhile (\<lambda>c. c \<noteq> CHR 0x0A) s @ [nl]) # readlines rest))"
  by pat_completeness auto
termination
  apply (relation "measure length")
   apply simp
  subgoal for s nl rest
    using length_dropWhile_le [of "\<lambda>c. c \<noteq> CHR 0x0A" s] by simp
  done

declare readlines.simps [simp del]

text \<open>Lines 147 to 153: the first line that starts with the marker gives the value
  and the unit, the third and fourth pieces of \<^verbatim>\<open>line.split(" ")\<close>.\<close>

fun find_decay_rate :: "string list \<Rightarrow> error + string \<times> string" where
  "find_decay_rate [] = Inl (ValueError ''No decay rate in this file'')"
| "find_decay_rate (line # lines) =
     (if take 16 line = ''Parent half-life'' then
        (case py_index (split_on CHR '' '' line) 2 of
           None \<Rightarrow> Inl IndexError
         | Some decay_rate_word \<Rightarrow>
             (case py_index (split_on CHR '' '' line) 3 of
                None \<Rightarrow> Inl IndexError
              | Some decay_rate_unit \<Rightarrow> Inr (decay_rate_word, decay_rate_unit)))
      else find_decay_rate lines)"

text \<open>Lines 163 to 184: the decay rate per second.\<close>

definition decay_rate_per_second :: "'f float_ops \<Rightarrow> string \<Rightarrow> string \<Rightarrow> error + 'f" where
  "decay_rate_per_second fl decay_rate_word decay_rate_unit =
     (case float_of_str fl decay_rate_word of
        None \<Rightarrow> Inl (FloatValueError decay_rate_word)
      | Some half_life \<Rightarrow>
          (case log2_div fl half_life of
             None \<Rightarrow> Inl ZeroDivisionError
           | Some rate \<Rightarrow>
               if decay_rate_unit = ''PS'' then Inr (float_mul fl rate 1000000000000)
               else if decay_rate_unit = ''NS'' then Inr (float_mul fl rate 1000000000)
               else if decay_rate_unit = ''US'' then Inr (float_mul fl rate 1000000)
               else if decay_rate_unit = ''MS'' then Inr (float_mul fl rate 1000)
               else if decay_rate_unit = ''S'' then Inr rate
               else if decay_rate_unit = ''M'' then Inr (float_div fl rate 60)
               else if decay_rate_unit = ''H'' then Inr (float_div fl rate 3600)
               else if decay_rate_unit = ''D'' then Inr (float_div fl rate 86400)
               else if decay_rate_unit = ''Y'' then Inr (float_div fl rate 31536000)
               else Inl (ValueError (''Unknown Half-Life Unit '' @ [CHR 0x27] @ decay_rate_unit
                                       @ [CHR 0x27]))))"

text \<open>Lines 187 to 192: the third piece of \<^verbatim>\<open>line.split()\<close> on the first line that
  starts with the marker.\<close>

fun find_decay_mode :: "string list \<Rightarrow> error + string" where
  "find_decay_mode [] = Inl (ValueError ''No decay mode in this file'')"
| "find_decay_mode (line # lines) =
     (if take 10 line = ''Decay Mode'' then
        (case py_index (split_ws line) 2 of
           None \<Rightarrow> Inl IndexError
         | Some decay_mode \<Rightarrow> Inr decay_mode)
      else find_decay_mode lines)"

text \<open>Lines 194 to 205: the change of atomic number and of atomic mass.\<close>

definition decay_mode_change :: "string \<Rightarrow> error + int \<times> int" where
  "decay_mode_change decay_mode =
     (if decay_mode = ''A'' then Inr (- 2, - 4)
      else if decay_mode = ''B-'' then Inr (1, 0)
      else if decay_mode = ''EC'' then Inr (- 1, 0)
      else Inl (ValueError (''Unknown decay mode '' @ [CHR 0x27] @ decay_mode @ [CHR 0x27])))"

record 'f IsomerData =
  isomer_name :: string
  atomic_number :: int
  atomic_mass :: int
  energy_state :: int
  stable :: bool
  decay_rate :: 'f
  decay_atomic_number_change :: int
  decay_atomic_mass_change :: int

text \<open>
  The constructor \<^verbatim>\<open>__init__\<close>. The file system is the map \<open>fs\<close> from a path to the
  text of the file there, \<open>None\<close> when \<^verbatim>\<open>open\<close> fails.
\<close>

definition IsomerData_init ::
  "ElementInfo \<Rightarrow> 'f float_ops \<Rightarrow> (string \<Rightarrow> string option) \<Rightarrow> string \<Rightarrow> string option
     \<Rightarrow> error + 'f IsomerData" where
  "IsomerData_init ei fl fs name data_directory_prefix =
     (case nuclear_data_from_name ei name of
        Inl e \<Rightarrow> Inl e
      | Inr (an, am, es) \<Rightarrow>
          (case filename_from_isomer_name ei name of
             Inl e \<Rightarrow> Inl e
           | Inr filename \<Rightarrow>
               (case fs (resolve_filepath data_directory_prefix filename) of
                  None \<Rightarrow> Inl OSError
                | Some text \<Rightarrow>
                    (let lines = readlines text in
                     (case find_decay_rate lines of
                        Inl e \<Rightarrow> Inl e
                      | Inr (decay_rate_word, decay_rate_unit) \<Rightarrow>
                          if decay_rate_word = ''STABLE'' then
                            Inr \<lparr>isomer_name = name, atomic_number = an, atomic_mass = am,
                                 energy_state = es, stable = True, decay_rate = float_zero fl,
                                 decay_atomic_number_change = 0, decay_atomic_mass_change = 0\<rparr>
                          else
                            (case decay_rate_per_second fl decay_rate_word decay_rate_unit of
                               Inl e \<Rightarrow> Inl e
                             | Inr rate \<Rightarrow>
                                 (case find_decay_mode lines of
                                    Inl e \<Rightarrow> Inl e
                                  | Inr decay_mode \<Rightarrow>
                                      (case decay_mode_change decay_mode of
                                         Inl e \<Rightarrow> Inl e
                                       | Inr (dz, da) \<Rightarrow>
                                           Inr \<lparr>isomer_name = name, atomic_number = an,
                                                atomic_mass = am, energy_state = es,
                                                stable = False, decay_rate = rate,
                                                decay_atomic_number_change = dz,
                                                decay_atomic_mass_change = da\<rparr>))))))))"


section \<open>Concrete collaborators for the examples\<close>

text \<open>A table with three elements, and floats read as exact reals for the literals
  the examples use.\<close>

definition example_table :: ElementInfo where
  "example_table =
     \<lparr>get_element_symbol_from_atomic_number = map_of [(27, ''Co''), (28, ''Ni''), (73, ''Ta'')],
      get_atomic_number_from_element_symbol = map_of [(''Co'', 27), (''Ni'', 28), (''Ta'', 73)]\<rparr>"

definition example_floats :: "real float_ops" where
  "example_floats =
     \<lparr>float_of_str = map_of [(''5.2714'', 52714 / 10000), (''0'', 0)],
      float_zero = 0,
      log2_div = (\<lambda>x. if x = 0 then None else Some (ln 2 / x)),
      float_mul = (\<lambda>x c. x * of_int c),
      float_div = (\<lambda>x c. x / of_int c)\<rparr>"

section \<open>Facts about the string primitives\<close>

lemma isdecimal_cases: "isdecimal c \<Longrightarrow> isnumeric c \<and> c \<noteq> CHR ''m'' \<and> c \<noteq> CHR ''_'' \<and> c \<noteq> CHR ''.'' \<and> c \<noteq> CHR ''-'' \<and> c \<noteq> CHR ''+'' \<and> \<not> int_space c"
  by (auto simp: isdecimal_def isnumeric_def int_space_def)

lemma digit_char: "d < 10 \<Longrightarrow> isdecimal (''0123456789'' ! d) \<and> digit_value (''0123456789'' ! d) = d"
proof -
  assume "d < 10"
  then have "d \<in> {0, 1, 2, 3, 4, 5, 6, 7, 8, 9}" by auto
  then show ?thesis by (auto simp: isdecimal_def digit_value_def)
qed

lemma str_nat_decimal: "list_all isdecimal (str_nat n)"
proof (induction n rule: str_nat.induct)
  case (1 n)
  show ?case
  proof (cases "n < 10")
    case True
    then show ?thesis using digit_char [of n] by (simp add: str_nat.simps [of n])
  next
    case False
    then show ?thesis using 1 digit_char [of "n mod 10"] by (simp add: str_nat.simps [of n])
  qed
qed

lemma str_nat_nonempty: "str_nat n \<noteq> []"
  by (simp add: str_nat.simps [of n])

lemma int_digits_decimal:
  "list_all isdecimal ds \<Longrightarrow> int_digits acc ds = Some (foldl (\<lambda>a c. 10 * a + digit_value c) acc ds)"
  by (induction ds arbitrary: acc) auto

lemma foldl_str_nat: "foldl (\<lambda>a c. 10 * a + digit_value c) 0 (str_nat n) = n"
proof (induction n rule: str_nat.induct)
  case (1 n)
  show ?case
  proof (cases "n < 10")
    case True
    then show ?thesis using digit_char [of n] by (simp add: str_nat.simps [of n])
  next
    case False
    then show ?thesis using 1 digit_char [of "n mod 10"] by (simp add: str_nat.simps [of n])
  qed
qed

lemma foldl_zeros: "foldl (\<lambda>a c. 10 * a + digit_value c) 0 (replicate k CHR ''0'') = 0"
  by (induction k) (auto simp: digit_value_def)

lemma strip_int_decimal: "list_all isdecimal ds \<Longrightarrow> strip_int ds = ds"
proof (cases ds rule: rev_cases)
  case Nil
  then show ?thesis by (simp add: strip_int_def)
next
  case (snoc ys y)
  assume a: "list_all isdecimal ds"
  have 1: "dropWhile int_space ds = ds"
    using a isdecimal_cases by (cases ds) auto
  have 2: "dropWhile int_space (rev ds) = rev ds"
    using a snoc isdecimal_cases by auto
  show ?thesis by (simp add: strip_int_def 1 2)
qed

lemma py_int_decimal:
  assumes "list_all isdecimal ds" "ds \<noteq> []"
  shows "py_int ds = Inr (int (foldl (\<lambda>a c. 10 * a + digit_value c) 0 ds))"
proof -
  obtain c cs where ds: "ds = c # cs" using assms(2) by (cases ds) auto
  have c: "isdecimal c" "list_all isdecimal cs" using assms(1) ds by auto
  have "c \<noteq> CHR ''-''" "c \<noteq> CHR ''+''" using c(1) isdecimal_cases by auto
  then show ?thesis
    using c strip_int_decimal [OF assms(1)]
    by (simp add: py_int_def Let_def ds int_digits_decimal)
qed

lemma py_int_str_nat: "py_int (str_nat n) = Inr (int n)"
  by (simp add: py_int_decimal str_nat_decimal str_nat_nonempty foldl_str_nat)

lemma py_int_zfill_str_nat: "py_int (zfill w (str_nat n)) = Inr (int n)"
proof -
  obtain c cs where s: "str_nat n = c # cs" using str_nat_nonempty [of n] by (cases "str_nat n") auto
  have "isdecimal c" using str_nat_decimal [of n] s by simp
  then have "c \<noteq> CHR ''-''" "c \<noteq> CHR ''+''" using isdecimal_cases by auto
  then have "zfill w (str_nat n) = replicate (w - length (str_nat n)) CHR ''0'' @ str_nat n"
    by (simp add: zfill_def s)
  moreover have "isdecimal CHR ''0''" by (simp add: isdecimal_def)
  then have "list_all isdecimal (replicate (w - length (str_nat n)) CHR ''0'' @ str_nat n)"
    using str_nat_decimal [of n] by (auto simp: list_all_iff)
  ultimately show ?thesis
    by (simp add: py_int_decimal str_nat_nonempty foldl_zeros foldl_str_nat)
qed

lemma split_on_absent: "sep \<notin> set s \<Longrightarrow> split_on sep s = [s]"
proof -
  assume a: "sep \<notin> set s"
  then have t: "takeWhile (\<lambda>c. c \<noteq> sep) s = s" and d: "dropWhile (\<lambda>c. c \<noteq> sep) s = []"
    by (induction s) auto
  show ?thesis by (subst split_on.simps) (simp only: t d list.case)
qed

lemma split_on_first: "sep \<notin> set xs \<Longrightarrow> split_on sep (xs @ sep # ys) = xs # split_on sep ys"
proof -
  assume a: "sep \<notin> set xs"
  then have "takeWhile (\<lambda>c. c \<noteq> sep) (xs @ sep # ys) = xs"
            "dropWhile (\<lambda>c. c \<noteq> sep) (xs @ sep # ys) = sep # ys"
    by (induction xs) auto
  then show ?thesis by (simp add: split_on.simps [of sep "xs @ sep # ys"])
qed

lemma first_numeric_append:
  "list_all (\<lambda>c. \<not> isnumeric c) xs \<Longrightarrow> isnumeric d \<Longrightarrow> first_numeric i (xs @ d # ys) = Some (i + length xs)"
  by (induction xs arbitrary: i) auto

lemma first_numeric_none: "list_all (\<lambda>c. \<not> isnumeric c) xs \<Longrightarrow> first_numeric i xs = None"
  by (induction xs arbitrary: i) auto

lemma zfill_str_nat: "zfill w (str_nat n) = replicate (w - length (str_nat n)) CHR ''0'' @ str_nat n"
proof -
  obtain c cs where s: "str_nat n = c # cs" using str_nat_nonempty [of n] by (cases "str_nat n") auto
  have "isdecimal c" using str_nat_decimal [of n] s by simp
  then have "c \<noteq> CHR ''-''" "c \<noteq> CHR ''+''" using isdecimal_cases by auto
  then show ?thesis by (simp add: zfill_def s)
qed

lemma zfill_str_nat_decimal: "list_all isdecimal (zfill w (str_nat n))"
proof -
  have "isdecimal CHR ''0''" by (simp add: isdecimal_def)
  then show ?thesis using str_nat_decimal [of n] by (auto simp: zfill_str_nat list_all_iff)
qed

lemma length_str_nat_3: "n < 1000 \<Longrightarrow> length (str_nat n) \<le> 3"
  by (simp add: str_nat.simps [of n] str_nat.simps [of "n div 10"] str_nat.simps [of "n div 10 div 10"])

lemma length_zfill_3: "n < 1000 \<Longrightarrow> length (zfill 3 (str_nat n)) = 3"
  using length_str_nat_3 [of n] by (simp add: zfill_str_nat)

lemma decimal_not_sep:
  "list_all isdecimal ds \<Longrightarrow> CHR ''m'' \<notin> set ds \<and> CHR ''_'' \<notin> set ds \<and> CHR ''.'' \<notin> set ds"
  using isdecimal_cases by (auto simp: list_all_iff)

lemma py_str_nonneg: "0 \<le> i \<Longrightarrow> py_str i = str_nat (nat i)"
  by (simp add: py_str_def)

lemma energy_state_of_single: "energy_state_of [x] = Inr 0"
  by (simp add: energy_state_of_def py_index_def)

lemma energy_state_of_second: "energy_state_of (x # y # ys) = py_int y"
  by (simp add: energy_state_of_def py_index_def)

section \<open>The identifier codec: round trips and suffixes\<close>

text \<open>
  C1. Take an atomic number \<open>an\<close> whose element symbol is known to the table in both
  directions and has no numeric character, an atomic mass \<open>am \<ge> 0\<close> and an energy state
  \<open>es \<ge> 0\<close>. Then \<^verbatim>\<open>isomer_name_from_nuclear_data\<close> returns a name, and
  \<^verbatim>\<open>nuclear_data_from_name\<close> of that name returns exactly \<open>(an, am, es)\<close>. The bound of
  1000 on the number and the mass is not needed for this direction.
\<close>

theorem name_round_trip:
  assumes sym: "get_element_symbol_from_atomic_number ei an = Some symbol"
      and num: "get_atomic_number_from_element_symbol ei symbol = Some an"
      and alpha: "list_all (\<lambda>c. \<not> isnumeric c) symbol"
      and mass: "0 \<le> am"
      and state: "0 \<le> es"
  shows "\<exists>name.
           isomer_name_from_nuclear_data ei an am es = Inr name \<and>
           nuclear_data_from_name ei name = Inr (an, am, es)"
proof -
  define ms where "ms = str_nat (nat am)"
  define suffix where "suffix = (if es \<noteq> 0 then ''m'' @ str_nat (nat es) else [])"
  obtain d ds where ms: "ms = d # ds"
    using str_nat_nonempty [of "nat am"] by (cases ms) (auto simp: ms_def)
  have dec: "list_all isdecimal ms" by (simp add: ms_def str_nat_decimal)
  then have d: "isnumeric d" using ms isdecimal_cases by simp
  have nom: "CHR ''m'' \<notin> set ms" using dec decimal_not_sep by blast
  have name: "isomer_name_from_nuclear_data ei an am es
                = Inr (symbol @ ms @ suffix)"
    using mass state by (simp add: isomer_name_from_nuclear_data_def sym py_str_nonneg ms_def suffix_def)
  have first: "first_numeric 0 (symbol @ ms @ suffix) = Some (length symbol)"
    using first_numeric_append [OF alpha d, of 0 "ds @ suffix"] by (simp add: ms)
  have pm: "py_int ms = Inr am"
    using mass by (simp add: ms_def py_int_str_nat)
  have split: "split_on CHR ''m'' (ms @ suffix) =
                 (if es \<noteq> 0 then [ms, str_nat (nat es)] else [ms])"
  proof (cases "es = 0")
    case True
    then show ?thesis using nom by (simp add: suffix_def split_on_absent)
  next
    case False
    have "CHR ''m'' \<notin> set (str_nat (nat es))"
      using str_nat_decimal decimal_not_sep by blast
    then show ?thesis
      using False split_on_first [OF nom, of "str_nat (nat es)"]
      by (simp add: suffix_def split_on_absent)
  qed
  have pe: "energy_state_of (split_on CHR ''m'' (ms @ suffix)) = Inr es"
    using state by (simp add: split energy_state_of_single energy_state_of_second py_int_str_nat)
  have i0: "py_index (split_on CHR ''m'' (ms @ suffix)) 0 = Some ms"
    by (simp add: split py_index_def)
  have "nuclear_data_from_name ei (symbol @ ms @ suffix) = Inr (an, am, es)"
    by (simp add: nuclear_data_from_name_def first num i0 pm pe)
  with name show ?thesis by blast
qed

theorem name_round_trip_witness:
  "get_element_symbol_from_atomic_number example_table 27 = Some ''Co'' \<and>
   get_atomic_number_from_element_symbol example_table ''Co'' = Some 27 \<and>
   list_all (\<lambda>c. \<not> isnumeric c) ''Co'' \<and> (0::int) \<le> 60 \<and> (0::int) \<le> 1 \<and>
   (\<exists>name.
      isomer_name_from_nuclear_data example_table 27 60 1 = Inr name \<and>
      nuclear_data_from_name example_table name = Inr (27, 60, 1))"
proof -
  have h: "get_element_symbol_from_atomic_number example_table 27 = Some ''Co''"
          "get_atomic_number_from_element_symbol example_table ''Co'' = Some 27"
          "list_all (\<lambda>c. \<not> isnumeric c) ''Co''"
    by (simp_all add: example_table_def isnumeric_def)
  show ?thesis using h name_round_trip [OF h, of 60 1] by simp
qed

lemma split_on_nonempty: "split_on sep s \<noteq> []"
  by (subst split_on.simps) simp

text \<open>
  C2. Take an atomic number \<open>0 \<le> an < 1000\<close> whose element symbol is known and has no
  underscore, an atomic mass \<open>am \<ge> 0\<close> and an energy state \<open>es \<ge> 0\<close>. Then
  \<^verbatim>\<open>filename_from_nuclear_data\<close> returns a file name, and \<^verbatim>\<open>nuclear_data_from_filename\<close>
  of that file name returns exactly \<open>(an, am, es)\<close>. Only the atomic number is read from
  fixed positions, so the bound on the mass is not needed.
\<close>

theorem filename_round_trip:
  assumes sym: "get_element_symbol_from_atomic_number ei an = Some symbol"
      and nous: "CHR ''_'' \<notin> set symbol"
      and an: "0 \<le> an" "an < 1000"
      and mass: "0 \<le> am"
      and state: "0 \<le> es"
  shows "\<exists>filename.
           filename_from_nuclear_data ei an am es = Inr filename \<and>
           nuclear_data_from_filename filename = Inr (an, am, es)"
proof -
  define ns where "ns = zfill 3 (str_nat (nat an))"
  define ms where "ms = zfill 3 (str_nat (nat am))"
  define suffix where "suffix = (if es \<noteq> 0 then ''m'' @ str_nat (nat es) else [])"
  define seg where "seg = ms @ suffix @ ''.endf''"
  have nsd: "list_all isdecimal ns" and msd: "list_all isdecimal ms"
    by (simp_all add: ns_def ms_def zfill_str_nat_decimal)
  have nsl: "length ns = 3" using an by (simp add: ns_def length_zfill_3)
  have sfx: "CHR ''_'' \<notin> set suffix \<and> CHR ''.'' \<notin> set suffix"
    using decimal_not_sep [OF str_nat_decimal, of "nat es"] by (simp add: suffix_def)
  have fname: "filename_from_nuclear_data ei an am es = Inr (''dec-'' @ ns @ ''_'' @ symbol @ ''_'' @ seg)"
    using an mass state
    by (simp add: filename_from_nuclear_data_def sym py_str_nonneg ns_def ms_def suffix_def seg_def)
  have num: "py_int (take 3 (drop 4 (''dec-'' @ ns @ ''_'' @ symbol @ ''_'' @ seg))) = Inr an"
    using nsl an by (simp add: ns_def py_int_zfill_str_nat)
  have s0: "CHR ''_'' \<notin> set (''dec-'' @ ns)" using decimal_not_sep [OF nsd] by simp
  have s2: "CHR ''_'' \<notin> set seg" using decimal_not_sep [OF msd] sfx by (simp add: seg_def)
  have "split_on CHR ''_'' ((''dec-'' @ ns) @ CHR ''_'' # symbol @ CHR ''_'' # seg)
          = [''dec-'' @ ns, symbol, seg]"
    by (simp only: split_on_first [OF s0] split_on_first [OF nous] split_on_absent [OF s2])
  then have i2: "py_index (split_on CHR ''_'' (''dec-'' @ ns @ ''_'' @ symbol @ ''_'' @ seg)) 2 = Some seg"
    by (simp add: py_index_def)
  have d: "CHR ''.'' \<notin> set (ms @ suffix)" using decimal_not_sep [OF msd] sfx by simp
  have "split_on CHR ''.'' ((ms @ suffix) @ CHR ''.'' # ''endf'') = (ms @ suffix) # split_on CHR ''.'' ''endf''"
    by (rule split_on_first [OF d])
  then have i0: "py_index (split_on CHR ''.'' seg) 0 = Some (ms @ suffix)"
    by (simp add: py_index_def seg_def)
  have nom: "CHR ''m'' \<notin> set ms" using decimal_not_sep [OF msd] by simp
  have split: "split_on CHR ''m'' (ms @ suffix) = (if es \<noteq> 0 then [ms, str_nat (nat es)] else [ms])"
  proof (cases "es = 0")
    case True
    then show ?thesis using nom by (simp add: suffix_def split_on_absent)
  next
    case False
    have "CHR ''m'' \<notin> set (str_nat (nat es))"
      using str_nat_decimal decimal_not_sep by blast
    then show ?thesis
      using False split_on_first [OF nom, of "str_nat (nat es)"]
      by (simp add: suffix_def split_on_absent)
  qed
  have m0: "py_index (split_on CHR ''m'' (ms @ suffix)) 0 = Some ms"
    by (simp add: split py_index_def)
  have pm: "py_int ms = Inr am" using mass by (simp add: ms_def py_int_zfill_str_nat)
  have pe: "energy_state_of (split_on CHR ''m'' (ms @ suffix)) = Inr es"
    using state by (simp add: split energy_state_of_single energy_state_of_second py_int_str_nat)
  have "nuclear_data_from_filename (''dec-'' @ ns @ ''_'' @ symbol @ ''_'' @ seg) = Inr (an, am, es)"
    unfolding nuclear_data_from_filename_def
    by (simp only: num i2 i0 m0 pm pe sum.case option.case)
  with fname show ?thesis by blast
qed

theorem filename_round_trip_witness:
  "get_element_symbol_from_atomic_number example_table 27 = Some ''Co'' \<and>
   CHR ''_'' \<notin> set ''Co'' \<and> (0::int) \<le> 27 \<and> (27::int) < 1000 \<and> (0::int) \<le> 60 \<and> (0::int) \<le> 1 \<and>
   (\<exists>filename.
      filename_from_nuclear_data example_table 27 60 1 = Inr filename \<and>
      nuclear_data_from_filename filename = Inr (27, 60, 1))"
proof -
  have h: "get_element_symbol_from_atomic_number example_table 27 = Some ''Co''"
          "CHR ''_'' \<notin> set ''Co''"
    by (simp_all add: example_table_def)
  show ?thesis using h filename_round_trip [OF h, of 60 1] by simp
qed

text \<open>
  C3. For an energy state \<open>es \<ge> 0\<close>, as the data model has it, both encoders append
  \<^verbatim>\<open>m<es>\<close> exactly when \<open>0 < es\<close>, and append nothing when \<open>es = 0\<close>. With cobalt in
  the table, the names of (27, 60, 0) and (27, 60, 1) are \<^verbatim>\<open>Co60\<close> and \<^verbatim>\<open>Co60m1\<close>, and
  the file names are \<^verbatim>\<open>dec-027_Co_060.endf\<close> and \<^verbatim>\<open>dec-027_Co_060m1.endf\<close>.
\<close>

theorem suffix_iff_positive:
  assumes "0 \<le> es"
  shows "isomer_name_from_nuclear_data ei an am es =
           (case get_element_symbol_from_atomic_number ei an of
              None \<Rightarrow> Inl ElementLookupError
            | Some symbol \<Rightarrow>
                Inr (symbol @ py_str am @ (if 0 < es then ''m'' @ py_str es else [])))
       \<and> filename_from_nuclear_data ei an am es =
           (case get_element_symbol_from_atomic_number ei an of
              None \<Rightarrow> Inl ElementLookupError
            | Some symbol \<Rightarrow>
                Inr (''dec-'' @ zfill 3 (py_str an) @ ''_'' @ symbol @ ''_'' @ zfill 3 (py_str am)
                       @ (if 0 < es then ''m'' @ py_str es else []) @ ''.endf''))
       \<and> (get_element_symbol_from_atomic_number ei 27 = Some ''Co'' \<longrightarrow>
            isomer_name_from_nuclear_data ei 27 60 0 = Inr ''Co60'' \<and>
            isomer_name_from_nuclear_data ei 27 60 1 = Inr ''Co60m1'' \<and>
            filename_from_nuclear_data ei 27 60 0 = Inr ''dec-027_Co_060.endf'' \<and>
            filename_from_nuclear_data ei 27 60 1 = Inr ''dec-027_Co_060m1.endf'')"
proof -
  have s: "str_nat 60 = ''60''" "str_nat 27 = ''27''" "str_nat (Suc 0) = ''1''"
    by (simp_all add: str_nat.simps)
  have 1: "isomer_name_from_nuclear_data ei an am es =
           (case get_element_symbol_from_atomic_number ei an of
              None \<Rightarrow> Inl ElementLookupError
            | Some symbol \<Rightarrow>
                Inr (symbol @ py_str am @ (if 0 < es then ''m'' @ py_str es else [])))"
    using assms by (simp add: isomer_name_from_nuclear_data_def split: option.splits)
  have 2: "filename_from_nuclear_data ei an am es =
           (case get_element_symbol_from_atomic_number ei an of
              None \<Rightarrow> Inl ElementLookupError
            | Some symbol \<Rightarrow>
                Inr (''dec-'' @ zfill 3 (py_str an) @ ''_'' @ symbol @ ''_'' @ zfill 3 (py_str am)
                       @ (if 0 < es then ''m'' @ py_str es else []) @ ''.endf''))"
    using assms by (simp add: filename_from_nuclear_data_def split: option.splits)
  have 3: "get_element_symbol_from_atomic_number ei 27 = Some ''Co'' \<longrightarrow>
            isomer_name_from_nuclear_data ei 27 60 0 = Inr ''Co60'' \<and>
            isomer_name_from_nuclear_data ei 27 60 1 = Inr ''Co60m1'' \<and>
            filename_from_nuclear_data ei 27 60 0 = Inr ''dec-027_Co_060.endf'' \<and>
            filename_from_nuclear_data ei 27 60 1 = Inr ''dec-027_Co_060m1.endf''"
    by (simp add: isomer_name_from_nuclear_data_def filename_from_nuclear_data_def py_str_def s zfill_def)
  from 1 2 3 show ?thesis by blast
qed

theorem suffix_iff_positive_witness:
  "(0::int) \<le> 1 \<and> get_element_symbol_from_atomic_number example_table 27 = Some ''Co'' \<and>
   isomer_name_from_nuclear_data example_table 27 60 0 = Inr ''Co60'' \<and>
   isomer_name_from_nuclear_data example_table 27 60 1 = Inr ''Co60m1'' \<and>
   filename_from_nuclear_data example_table 27 60 0 = Inr ''dec-027_Co_060.endf'' \<and>
   filename_from_nuclear_data example_table 27 60 1 = Inr ''dec-027_Co_060m1.endf''"
proof -
  have h: "get_element_symbol_from_atomic_number example_table 27 = Some ''Co''"
    by (simp add: example_table_def)
  have z: "(0::int) \<le> 1" by simp
  from suffix_iff_positive [OF z, of example_table 27 60] h z show ?thesis by blast
qed

text \<open>
  C8. A name without any numeric character makes \<^verbatim>\<open>nuclear_data_from_name\<close> fail with the
  error of the unassigned \<^verbatim>\<open>n_char_symbol\<close>, whatever the element table is: the lookup
  of the symbol is never reached.
\<close>

theorem no_numeric_character:
  assumes "list_all (\<lambda>c. \<not> isnumeric c) name"
  shows "nuclear_data_from_name ei name = Inl UnboundLocalError"
  by (simp add: nuclear_data_from_name_def first_numeric_none [OF assms])

theorem no_numeric_character_witness:
  "list_all (\<lambda>c. \<not> isnumeric c) ''Co'' \<and>
   nuclear_data_from_name example_table ''Co'' = Inl UnboundLocalError"
proof -
  have h: "list_all (\<lambda>c. \<not> isnumeric c) ''Co''" by (simp add: isnumeric_def)
  show ?thesis using h no_numeric_character [OF h, of example_table] by simp
qed





text \<open>
  C10, as amended. Two file names that differ only in their second segment between
  underscores give the same result of \<^verbatim>\<open>nuclear_data_from_filename\<close>, value or error,
  when the first segment has at least seven characters (as \<^verbatim>\<open>dec-027\<close> has), so that
  the positions 4 to 6 lie inside it.
\<close>

theorem symbol_segment_unread:
  assumes len: "7 \<le> length seg0"
      and u0: "CHR ''_'' \<notin> set seg0"
      and u1: "CHR ''_'' \<notin> set s1"
      and u2: "CHR ''_'' \<notin> set s2"
      and rest: "rest = [] \<or> hd rest = CHR ''_''"
  shows "nuclear_data_from_filename (seg0 @ ''_'' @ s1 @ rest) =
         nuclear_data_from_filename (seg0 @ ''_'' @ s2 @ rest)"
proof -
  have num: "take 3 (drop 4 (seg0 @ ''_'' @ s @ rest)) = take 3 (drop 4 seg0)" for s
    using len by simp
  have seg: "py_index (split_on CHR ''_'' (seg0 @ ''_'' @ s @ rest)) 2 =
             (if rest = [] then None else Some (hd (split_on CHR ''_'' (tl rest))))"
    if "CHR ''_'' \<notin> set s" for s
  proof (cases rest)
    case Nil
    then show ?thesis
      using split_on_first [OF u0, of s] that by (simp add: split_on_absent py_index_def)
  next
    case (Cons r rs)
    then have r: "r = CHR ''_''" using rest by simp
    obtain y ys where y: "split_on CHR ''_'' rs = y # ys"
      using split_on_nonempty [of "CHR ''_''" rs] by (cases "split_on CHR ''_'' rs") auto
    show ?thesis
      using split_on_first [OF u0, of "s @ rest"] split_on_first [OF that, of rs]
      by (simp add: Cons r y py_index_def)
  qed
  show ?thesis
    unfolding nuclear_data_from_filename_def
    by (simp only: num seg [OF u1] seg [OF u2])
qed

theorem symbol_segment_unread_witness:
  "(7::nat) \<le> length ''dec-027'' \<and> CHR ''_'' \<notin> set ''dec-027'' \<and> CHR ''_'' \<notin> set ''Co'' \<and>
   CHR ''_'' \<notin> set ''Ni'' \<and> (''_060m1.endf'' = [] \<or> hd ''_060m1.endf'' = CHR ''_'') \<and>
   nuclear_data_from_filename ''dec-027_Co_060m1.endf'' =
   nuclear_data_from_filename ''dec-027_Ni_060m1.endf''"
proof -
  have h: "(7::nat) \<le> length ''dec-027''" "CHR ''_'' \<notin> set ''dec-027''" "CHR ''_'' \<notin> set ''Co''"
          "CHR ''_'' \<notin> set ''Ni''" "''_060m1.endf'' = [] \<or> hd ''_060m1.endf'' = CHR ''_''"
    by simp_all
  from symbol_segment_unread [OF h] h show ?thesis by simp
qed

text \<open>
  With a first segment of three characters the positions 4 to 6 are the second
  segment itself, and the atomic number is read from it.
\<close>

theorem symbol_segment_read_counterexample:
  "nuclear_data_from_filename ''dec_123_060.endf'' = Inr (123, 60, 0) \<and>
   nuclear_data_from_filename ''dec_456_060.endf'' = Inr (456, 60, 0) \<and>
   nuclear_data_from_filename ''dec_123_060.endf'' \<noteq> nuclear_data_from_filename ''dec_456_060.endf''"
proof -
  have 1: "nuclear_data_from_filename ''dec_123_060.endf'' = Inr (123, 60, 0)" by code_simp
  have 2: "nuclear_data_from_filename ''dec_456_060.endf'' = Inr (456, 60, 0)" by code_simp
  from 1 2 show ?thesis by simp
qed

section \<open>The loader\<close>

lemma find_decay_rate_none:
  "\<forall>line \<in> set lines. take 16 line \<noteq> ''Parent half-life'' \<Longrightarrow>
   find_decay_rate lines = Inl (ValueError ''No decay rate in this file'')"
  by (induction lines) auto

lemma find_decay_mode_none:
  "\<forall>line \<in> set lines. take 10 line \<noteq> ''Decay Mode'' \<Longrightarrow>
   find_decay_mode lines = Inl (ValueError ''No decay mode in this file'')"
  by (induction lines) auto

lemma init_opened:
  assumes nd: "nuclear_data_from_name ei name = Inr (an, am, es)"
      and fn: "filename_from_isomer_name ei name = Inr filename"
      and opened: "fs (resolve_filepath prefix filename) = Some text"
  shows "IsomerData_init ei fl fs name prefix =
     (case find_decay_rate (readlines text) of
        Inl e \<Rightarrow> Inl e
      | Inr (decay_rate_word, decay_rate_unit) \<Rightarrow>
          if decay_rate_word = ''STABLE'' then
            Inr \<lparr>isomer_name = name, atomic_number = an, atomic_mass = am,
                 energy_state = es, stable = True, decay_rate = float_zero fl,
                 decay_atomic_number_change = 0, decay_atomic_mass_change = 0\<rparr>
          else
            (case decay_rate_per_second fl decay_rate_word decay_rate_unit of
               Inl e \<Rightarrow> Inl e
             | Inr rate \<Rightarrow>
                 (case find_decay_mode (readlines text) of
                    Inl e \<Rightarrow> Inl e
                  | Inr decay_mode \<Rightarrow>
                      (case decay_mode_change decay_mode of
                         Inl e \<Rightarrow> Inl e
                       | Inr (dz, da) \<Rightarrow>
                           Inr \<lparr>isomer_name = name, atomic_number = an,
                                atomic_mass = am, energy_state = es,
                                stable = False, decay_rate = rate,
                                decay_atomic_number_change = dz,
                                decay_atomic_mass_change = da\<rparr>))))"
  by (simp add: IsomerData_init_def nd fn opened Let_def)

lemma example_names:
  "nuclear_data_from_name example_table ''Co60'' = Inr (27, 60, 0)"
  "filename_from_isomer_name example_table ''Co60'' = Inr ''dec-027_Co_060.endf''"
  "nuclear_data_from_name example_table ''Co59'' = Inr (27, 59, 0)"
  "filename_from_isomer_name example_table ''Co59'' = Inr ''dec-027_Co_059.endf''"
  "nuclear_data_from_name example_table ''Ta180m1'' = Inr (73, 180, 1)"
  "filename_from_isomer_name example_table ''Ta180m1'' = Inr ''dec-073_Ta_180m1.endf''"
  by code_simp+

text \<open>
  C4. The constructor cuts the marker line at every single space, so its third and
  fourth pieces are the third and fourth runs of characters that are not white space
  only when single spaces separate the runs and a space follows the unit. With two
  spaces before the value the pieces are the empty string and the value, and the
  constructor fails in \<^verbatim>\<open>float\<close>; with the unit at the end of the line the unit keeps
  the newline and is rejected. The decay mode line is cut by \<^verbatim>\<open>split()\<close> and has
  neither behaviour.
\<close>

theorem half_life_pieces:
  "find_decay_rate (readlines ''Parent half-life:  5.2714 Y \<newline>'') = Inr ('''', ''5.2714'') \<and>
   split_ws ''Parent half-life:  5.2714 Y \<newline>'' = [''Parent'', ''half-life:'', ''5.2714'', ''Y''] \<and>
   IsomerData_init example_table example_floats
     (map_of [(''dec-027_Co_060.endf'', ''Parent half-life:  5.2714 Y \<newline>Decay Mode: B- \<newline>'')])
     ''Co60'' None = Inl (FloatValueError '''') \<and>
   find_decay_rate (readlines ''Parent half-life: 5.2714 Y\<newline>'') = Inr (''5.2714'', ''Y\<newline>'') \<and>
   split_ws ''Parent half-life: 5.2714 Y\<newline>'' = [''Parent'', ''half-life:'', ''5.2714'', ''Y''] \<and>
   IsomerData_init example_table example_floats
     (map_of [(''dec-027_Co_060.endf'', ''Parent half-life: 5.2714 Y\<newline>Decay Mode: B-\<newline>'')])
     ''Co60'' None = Inl (ValueError (''Unknown Half-Life Unit '' @ [CHR 0x27] @ ''Y\<newline>'' @ [CHR 0x27]))"
proof -
  let ?t1 = "''Parent half-life:  5.2714 Y \<newline>Decay Mode: B- \<newline>''"
  let ?t2 = "''Parent half-life: 5.2714 Y\<newline>Decay Mode: B-\<newline>''"
  have o: "map_of [(''dec-027_Co_060.endf'', t)] (resolve_filepath None ''dec-027_Co_060.endf'') = Some t"
    for t :: string
    by (simp add: resolve_filepath_def)
  have 1: "find_decay_rate (readlines ''Parent half-life:  5.2714 Y \<newline>'') = Inr ('''', ''5.2714'')"
    by code_simp
  have 2: "split_ws ''Parent half-life:  5.2714 Y \<newline>'' = [''Parent'', ''half-life:'', ''5.2714'', ''Y'']"
    by code_simp
  have s1: "find_decay_rate (readlines ?t1) = Inr ('''', ''5.2714'')" by code_simp
  have d1: "decay_rate_per_second example_floats '''' ''5.2714'' = Inl (FloatValueError '''')"
    by (simp add: decay_rate_per_second_def example_floats_def)
  have 3: "IsomerData_init example_table example_floats
     (map_of [(''dec-027_Co_060.endf'', ?t1)]) ''Co60'' None = Inl (FloatValueError '''')"
    unfolding init_opened [where fs = "map_of [(''dec-027_Co_060.endf'', ?t1)]" and fl = example_floats
                and prefix = None, OF example_names(1) example_names(2) o] s1
    by (simp add: d1)
  have 4: "find_decay_rate (readlines ''Parent half-life: 5.2714 Y\<newline>'') = Inr (''5.2714'', ''Y\<newline>'')"
    by code_simp
  have 5: "split_ws ''Parent half-life: 5.2714 Y\<newline>'' = [''Parent'', ''half-life:'', ''5.2714'', ''Y'']"
    by code_simp
  have s2: "find_decay_rate (readlines ?t2) = Inr (''5.2714'', ''Y\<newline>'')" by code_simp
  have d2: "decay_rate_per_second example_floats ''5.2714'' ''Y\<newline>'' =
              Inl (ValueError (''Unknown Half-Life Unit '' @ [CHR 0x27] @ ''Y\<newline>'' @ [CHR 0x27]))"
    by (simp add: decay_rate_per_second_def example_floats_def)
  have 6: "IsomerData_init example_table example_floats
     (map_of [(''dec-027_Co_060.endf'', ?t2)]) ''Co60'' None =
       Inl (ValueError (''Unknown Half-Life Unit '' @ [CHR 0x27] @ ''Y\<newline>'' @ [CHR 0x27]))"
    unfolding init_opened [where fs = "map_of [(''dec-027_Co_060.endf'', ?t2)]" and fl = example_floats
                and prefix = None, OF example_names(1) example_names(2) o] s2
    by (simp add: d2)
  from 1 2 3 4 5 6 show ?thesis by blast
qed






text \<open>
  C7, as amended. Once the name is decoded and the file is read, the constructor
  fails with \<^verbatim>\<open>No decay rate in this file\<close> when no line starts with the half-life
  marker; with \<^verbatim>\<open>Unknown Half-Life Unit '<unit>'\<close> when the value piece is not
  \<^verbatim>\<open>STABLE\<close>, converts to a float that \<^verbatim>\<open>math.log(2)\<close> can be divided by, and the unit
  piece is not in the table; with \<^verbatim>\<open>No decay mode in this file\<close> when the decay rate was
  computed and no line starts with \<^verbatim>\<open>Decay Mode\<close>; and with
  \<^verbatim>\<open>Unknown decay mode '<code>'\<close> when the decay rate was computed and the mode piece
  is not \<^verbatim>\<open>A\<close>, \<^verbatim>\<open>B-\<close> or \<^verbatim>\<open>EC\<close>.
\<close>

theorem format_errors:
  assumes nd: "nuclear_data_from_name ei name = Inr (an, am, es)"
      and fn: "filename_from_isomer_name ei name = Inr filename"
      and opened: "fs (resolve_filepath prefix filename) = Some text"
  shows "((\<forall>line \<in> set (readlines text). take 16 line \<noteq> ''Parent half-life'') \<longrightarrow>
            IsomerData_init ei fl fs name prefix = Inl (ValueError ''No decay rate in this file''))
       \<and> (find_decay_rate (readlines text) = Inr (word, unit) \<and> word \<noteq> ''STABLE'' \<and>
          float_of_str fl word = Some h \<and> log2_div fl h = Some q \<and>
          unit \<notin> set [''PS'', ''NS'', ''US'', ''MS'', ''S'', ''M'', ''H'', ''D'', ''Y''] \<longrightarrow>
            IsomerData_init ei fl fs name prefix =
              Inl (ValueError (''Unknown Half-Life Unit '' @ [CHR 0x27] @ unit @ [CHR 0x27])))
       \<and> (find_decay_rate (readlines text) = Inr (word, unit) \<and> word \<noteq> ''STABLE'' \<and>
          decay_rate_per_second fl word unit = Inr rate \<and>
          (\<forall>line \<in> set (readlines text). take 10 line \<noteq> ''Decay Mode'') \<longrightarrow>
            IsomerData_init ei fl fs name prefix = Inl (ValueError ''No decay mode in this file''))
       \<and> (find_decay_rate (readlines text) = Inr (word, unit) \<and> word \<noteq> ''STABLE'' \<and>
          decay_rate_per_second fl word unit = Inr rate \<and>
          find_decay_mode (readlines text) = Inr mode \<and> mode \<notin> set [''A'', ''B-'', ''EC''] \<longrightarrow>
            IsomerData_init ei fl fs name prefix =
              Inl (ValueError (''Unknown decay mode '' @ [CHR 0x27] @ mode @ [CHR 0x27])))"
proof -
  note io = init_opened [where fs = fs and prefix = prefix and fl = fl, OF nd fn opened]
  show ?thesis
  proof (intro conjI impI)
  assume "\<forall>line \<in> set (readlines text). take 16 line \<noteq> ''Parent half-life''"
  then show "IsomerData_init ei fl fs name prefix = Inl (ValueError ''No decay rate in this file'')"
    by (simp add: io find_decay_rate_none)
next
  assume a: "find_decay_rate (readlines text) = Inr (word, unit) \<and> word \<noteq> ''STABLE'' \<and>
          float_of_str fl word = Some h \<and> log2_div fl h = Some q \<and>
          unit \<notin> set [''PS'', ''NS'', ''US'', ''MS'', ''S'', ''M'', ''H'', ''D'', ''Y'']"
  then have "decay_rate_per_second fl word unit =
           Inl (ValueError (''Unknown Half-Life Unit '' @ [CHR 0x27] @ unit @ [CHR 0x27]))"
    by (simp add: decay_rate_per_second_def)
  with a show "IsomerData_init ei fl fs name prefix =
              Inl (ValueError (''Unknown Half-Life Unit '' @ [CHR 0x27] @ unit @ [CHR 0x27]))"
    by (simp add: io)
next
  assume a: "find_decay_rate (readlines text) = Inr (word, unit) \<and> word \<noteq> ''STABLE'' \<and>
          decay_rate_per_second fl word unit = Inr rate \<and>
          (\<forall>line \<in> set (readlines text). take 10 line \<noteq> ''Decay Mode'')"
  then have "find_decay_mode (readlines text) = Inl (ValueError ''No decay mode in this file'')"
    by (simp add: find_decay_mode_none)
  with a show "IsomerData_init ei fl fs name prefix = Inl (ValueError ''No decay mode in this file'')"
    by (simp add: io)
next
  assume a: "find_decay_rate (readlines text) = Inr (word, unit) \<and> word \<noteq> ''STABLE'' \<and>
          decay_rate_per_second fl word unit = Inr rate \<and>
          find_decay_mode (readlines text) = Inr mode \<and> mode \<notin> set [''A'', ''B-'', ''EC'']"
  then have "decay_mode_change mode =
      Inl (ValueError (''Unknown decay mode '' @ [CHR 0x27] @ mode @ [CHR 0x27]))"
    by (simp add: decay_mode_change_def)
  with a show "IsomerData_init ei fl fs name prefix =
              Inl (ValueError (''Unknown decay mode '' @ [CHR 0x27] @ mode @ [CHR 0x27]))"
    by (simp add: io)
  qed
qed

theorem format_errors_witness:
  "IsomerData_init example_table example_floats
     (map_of [(''dec-027_Co_060.endf'', ''Cobalt 60\<newline>'')]) ''Co60'' None =
     Inl (ValueError ''No decay rate in this file'') \<and>
   IsomerData_init example_table example_floats
     (map_of [(''dec-027_Co_060.endf'', ''Parent half-life: 5.2714 FOO \<newline>'')]) ''Co60'' None =
     Inl (ValueError (''Unknown Half-Life Unit '' @ [CHR 0x27] @ ''FOO'' @ [CHR 0x27])) \<and>
   IsomerData_init example_table example_floats
     (map_of [(''dec-027_Co_060.endf'', ''Parent half-life: 5.2714 Y \<newline>'')]) ''Co60'' None =
     Inl (ValueError ''No decay mode in this file'') \<and>
   IsomerData_init example_table example_floats
     (map_of [(''dec-027_Co_060.endf'', ''Parent half-life: 5.2714 Y \<newline>Decay Mode: XX \<newline>'')])
     ''Co60'' None =
     Inl (ValueError (''Unknown decay mode '' @ [CHR 0x27] @ ''XX'' @ [CHR 0x27]))"
proof -
  let ?t1 = "''Cobalt 60\<newline>''"
  let ?t2 = "''Parent half-life: 5.2714 FOO \<newline>''"
  let ?t3 = "''Parent half-life: 5.2714 Y \<newline>''"
  let ?t4 = "''Parent half-life: 5.2714 Y \<newline>Decay Mode: XX \<newline>''"
  have o: "map_of [(''dec-027_Co_060.endf'', t)] (resolve_filepath None ''dec-027_Co_060.endf'') = Some t"
    for t :: string
    by (simp add: resolve_filepath_def)
  have f: "float_of_str example_floats ''5.2714'' = Some (52714 / 10000)"
    by (simp add: example_floats_def)
  have l: "log2_div example_floats (52714 / 10000) = Some (ln 2 / (52714 / 10000))"
    by (simp add: example_floats_def)
  have rt: "decay_rate_per_second example_floats ''5.2714'' ''Y'' = Inr (ln 2 / (52714 / 10000) / 31536000)"
    by (simp add: decay_rate_per_second_def example_floats_def)
  have w: "''5.2714'' \<noteq> ''STABLE''" by simp
  have r1: "readlines ?t1 = [?t1]" by code_simp
  have a1: "\<forall>line \<in> set (readlines ?t1). take 16 line \<noteq> ''Parent half-life''"
    unfolding r1 by simp
  have a2: "find_decay_rate (readlines ?t2) = Inr (''5.2714'', ''FOO'')" by code_simp
  have u2: "''FOO'' \<notin> set [''PS'', ''NS'', ''US'', ''MS'', ''S'', ''M'', ''H'', ''D'', ''Y'']" by simp
  have a3: "find_decay_rate (readlines ?t3) = Inr (''5.2714'', ''Y'')" by code_simp
  have r3: "readlines ?t3 = [?t3]" by code_simp
  have m3: "\<forall>line \<in> set (readlines ?t3). take 10 line \<noteq> ''Decay Mode''"
    unfolding r3 by simp
  have a4: "find_decay_rate (readlines ?t4) = Inr (''5.2714'', ''Y'')" by code_simp
  have m4: "find_decay_mode (readlines ?t4) = Inr ''XX''" by code_simp
  have u4: "''XX'' \<notin> set [''A'', ''B-'', ''EC'']" by simp
  note e = format_errors [where ei = example_table and fl = example_floats and prefix = None,
                          OF example_names(1) example_names(2)]
  from e [where fs = "map_of [(''dec-027_Co_060.endf'', ?t1)]", OF o] a1
  have 1: "IsomerData_init example_table example_floats
     (map_of [(''dec-027_Co_060.endf'', ?t1)]) ''Co60'' None =
     Inl (ValueError ''No decay rate in this file'')"
    by blast
  from e [where fs = "map_of [(''dec-027_Co_060.endf'', ?t2)]", OF o,
          where word = "''5.2714''" and unit = "''FOO''" and h = "52714 / 10000"
            and q = "ln 2 / (52714 / 10000)"] a2 w f l u2
  have 2: "IsomerData_init example_table example_floats
     (map_of [(''dec-027_Co_060.endf'', ?t2)]) ''Co60'' None =
     Inl (ValueError (''Unknown Half-Life Unit '' @ [CHR 0x27] @ ''FOO'' @ [CHR 0x27]))"
    by blast
  from e [where fs = "map_of [(''dec-027_Co_060.endf'', ?t3)]", OF o,
          where word = "''5.2714''" and unit = "''Y''" and rate = "ln 2 / (52714 / 10000) / 31536000"]
       a3 w rt m3
  have 3: "IsomerData_init example_table example_floats
     (map_of [(''dec-027_Co_060.endf'', ?t3)]) ''Co60'' None =
     Inl (ValueError ''No decay mode in this file'')"
    by blast
  from e [where fs = "map_of [(''dec-027_Co_060.endf'', ?t4)]", OF o,
          where word = "''5.2714''" and unit = "''Y''" and rate = "ln 2 / (52714 / 10000) / 31536000"
            and mode = "''XX''"]
       a4 w rt m4 u4
  have 4: "IsomerData_init example_table example_floats
     (map_of [(''dec-027_Co_060.endf'', ?t4)]) ''Co60'' None =
     Inl (ValueError (''Unknown decay mode '' @ [CHR 0x27] @ ''XX'' @ [CHR 0x27]))"
    by blast
  from 1 2 3 4 show ?thesis by blast
qed

text \<open>
  A stable isomer whose unit piece is not in the table: the unit is never looked at
  and the constructor succeeds.
\<close>

theorem unit_of_stable_counterexample:
  "find_decay_rate (readlines ''Parent half-life: STABLE FOO \<newline>'') = Inr (''STABLE'', ''FOO'') \<and>
   ''FOO'' \<notin> set [''PS'', ''NS'', ''US'', ''MS'', ''S'', ''M'', ''H'', ''D'', ''Y''] \<and>
   IsomerData_init example_table example_floats
     (map_of [(''dec-027_Co_059.endf'', ''Parent half-life: STABLE FOO \<newline>'')]) ''Co59'' None =
     Inr \<lparr>isomer_name = ''Co59'', atomic_number = 27, atomic_mass = 59, energy_state = 0,
          stable = True, decay_rate = 0,
          decay_atomic_number_change = 0, decay_atomic_mass_change = 0\<rparr>"
proof -
  let ?text = "''Parent half-life: STABLE FOO \<newline>''"
  let ?fs = "map_of [(''dec-027_Co_059.endf'', ?text)]"
  have o: "?fs (resolve_filepath None ''dec-027_Co_059.endf'') = Some ?text"
    by (simp add: resolve_filepath_def)
  have s: "find_decay_rate (readlines ?text) = Inr (''STABLE'', ''FOO'')" by code_simp
  have u: "''FOO'' \<notin> set [''PS'', ''NS'', ''US'', ''MS'', ''S'', ''M'', ''H'', ''D'', ''Y'']" by simp
  have z: "float_zero example_floats = 0" by (simp add: example_floats_def)
  note io = init_opened [where fs = ?fs and fl = example_floats and prefix = None,
                         OF example_names(3) example_names(4) o]
  have i: "IsomerData_init example_table example_floats ?fs ''Co59'' None =
     Inr \<lparr>isomer_name = ''Co59'', atomic_number = 27, atomic_mass = 59, energy_state = 0,
          stable = True, decay_rate = 0,
          decay_atomic_number_change = 0, decay_atomic_mass_change = 0\<rparr>"
    unfolding io s by (simp add: z)
  from s u i show ?thesis by blast
qed

end
